theory Spec2Isabelle
  imports Main "HOL-Library.Sublist"
begin

section \<open>JavaScript values\<close>

text \<open>
  The selectors are TypeScript components. Identifiers are JavaScript numbers; they are
  modelled as integers (fractions, NaN and infinities are outside the model). The
  \<open>value\<close> prop of ChartSelect has the type \<open>number | null | undefined\<close>; the change
  handler receives a value of type \<open>any\<close>.
\<close>

datatype value_prop = VUndefined | VNull | VNum int

datatype jsval = JUndefined | JNull | JNum int | JStr string | JObj "(string \<times> jsval) list"

text \<open>JavaScript truthiness of the \<open>value\<close> prop: \<open>!value\<close> holds for undefined, null and 0.\<close>

fun truthy :: "value_prop \<Rightarrow> bool" where
  "truthy VUndefined = False"
| "truthy VNull = False"
| "truthy (VNum n) = (n \<noteq> 0)"

text \<open>
  The text a template literal \<open>`${n}`\<close> produces for an integral number (decimal digits,
  a leading minus sign; JavaScript switches to exponent notation from \<open>1e21\<close> on, which
  no identifier reaches).
\<close>

definition digit_char :: "nat \<Rightarrow> char" where
  "digit_char d = ''0123456789'' ! d"

fun string_of_nat :: "nat \<Rightarrow> string" where
  "string_of_nat n =
     (if n < 10 then [digit_char n] else string_of_nat (n div 10) @ [digit_char (n mod 10)])"

declare string_of_nat.simps [simp del]

definition toString :: "int \<Rightarrow> string" where
  "toString n = (if n < 0 then ''-'' @ string_of_nat (nat (- n)) else string_of_nat (nat n))"

section \<open>ChartSelect: options and list queries\<close>

text \<open>\<open>interface ChartOption { value: number; label: string; viz_type?: string }\<close>\<close>

record ChartOption =
  option_value :: int
  option_label :: string
  option_viz_type :: "string option"

text \<open>A chart as the REST API returns it (the fields the component reads).\<close>

record Chart =
  chart_id :: int
  slice_name :: string
  viz_type :: string

text \<open>
  The object literal built from a chart, at lines 97--101 (list results) and again at
  lines 134--138 (the selected chart): \<open>{ value: chart.id, label:
  `${chart.slice_name} (${chart.viz_type})`, viz_type: chart.viz_type }\<close>.
\<close>

definition toChartOption :: "Chart \<Rightarrow> ChartOption" where
  "toChartOption chart =
     \<lparr> option_value = chart_id chart,
       option_label = slice_name chart @ '' ('' @ viz_type chart @ '')'',
       option_viz_type = Some (viz_type chart) \<rparr>"

record Filter =
  col :: string
  opr :: string
  filter_value :: jsval

record Query =
  filters :: "Filter list"
  page :: int
  page_size :: int
  order_column :: string
  order_direction :: string

record ListResponse =
  count :: int
  result :: "Chart list"

record OptionsPage =
  data :: "ChartOption list"
  totalCount :: int

text \<open>
  Lines 62--83 of \<open>loadChartOptions\<close>: the filter array. \<open>if (input)\<close> holds for a
  non-empty string, \<open>if (datasetId)\<close> for a number other than 0 (the prop is optional:
  \<open>None\<close> is undefined).
\<close>

definition chartFilters :: "int option \<Rightarrow> string \<Rightarrow> Filter list" where
  "chartFilters datasetId input =
     (if input \<noteq> [] then [\<lparr> col = ''slice_name'', opr = ''ct'', filter_value = JStr input \<rparr>]
      else []) @
     (case datasetId of
        None \<Rightarrow> []
      | Some d \<Rightarrow>
          if d \<noteq> 0 then
            [\<lparr> col = ''datasource_id'', opr = ''eq'', filter_value = JNum d \<rparr>,
             \<lparr> col = ''datasource_type'', opr = ''eq'', filter_value = JStr ''table'' \<rparr>]
          else [])"

text \<open>
  Lines 85--91: the object handed to \<open>rison.encode\<close>. The parameters default to
  \<open>input = ''\<close>, \<open>page = 0\<close>, \<open>pageSize = 50\<close> when the caller passes undefined.
\<close>

definition chartQuery :: "int option \<Rightarrow> string option \<Rightarrow> int option \<Rightarrow> int option \<Rightarrow> Query" where
  "chartQuery datasetId input pg pageSize =
     \<lparr> filters = chartFilters datasetId (case input of None \<Rightarrow> [] | Some i \<Rightarrow> i),
       page = (case pg of None \<Rightarrow> 0 | Some p \<Rightarrow> p),
       page_size = (case pageSize of None \<Rightarrow> 50 | Some n \<Rightarrow> n),
       order_column = ''slice_name'',
       order_direction = ''asc'' \<rparr>"

text \<open>
  \<open>loadChartOptions\<close>, lines 60--107. The HTTP client is the parameter \<open>get\<close>: it
  receives the query (its rison encoding into the URL is the library's) and either fails
  (the awaited promise rejects, and so does \<open>loadChartOptions\<close>) or returns the
  response body.
\<close>

definition loadChartOptions ::
  "(Query \<Rightarrow> 'e + ListResponse) \<Rightarrow> int option \<Rightarrow> string option \<Rightarrow> int option \<Rightarrow> int option
     \<Rightarrow> 'e + OptionsPage" where
  "loadChartOptions get datasetId input pg pageSize =
     (case get (chartQuery datasetId input pg pageSize) of
        Inl e \<Rightarrow> Inl e
      | Inr response \<Rightarrow>
          Inr \<lparr> data = map toChartOption (result response), totalCount = count response \<rparr>)"

section \<open>ChartSelect: the selected chart\<close>

text \<open>The two \<open>useState\<close> cells of the component (lines 111--114).\<close>

record ChartSelectState =
  selectedChart :: "ChartOption option"
  isLoadingSelected :: bool

definition initialState :: ChartSelectState where
  "initialState = \<lparr> selectedChart = None, isLoadingSelected = False \<rparr>"

text \<open>
  The body of the effect on \<open>[value]\<close> (lines 117--131), up to the point where the
  request is sent: it returns the new state and the identifier a by-identifier fetch was
  issued for, if any.
\<close>

definition valueEffect :: "value_prop \<Rightarrow> ChartSelectState \<Rightarrow> ChartSelectState \<times> int option" where
  "valueEffect v s =
     (case v of
        VNum n \<Rightarrow>
          if n = 0 then (s\<lparr> selectedChart := None \<rparr>, None)
          else (case selectedChart s of
                  Some c \<Rightarrow>
                    if option_value c = n then (s, None)
                    else (s\<lparr> isLoadingSelected := True \<rparr>, Some n)
                | None \<Rightarrow> (s\<lparr> isLoadingSelected := True \<rparr>, Some n))
      | _ \<Rightarrow> (s\<lparr> selectedChart := None \<rparr>, None))"

text \<open>
  The promise handlers of the fetch (lines 132--150). \<open>onRejected\<close> closes over the
  \<open>value\<close> the effect ran with.
\<close>

definition onFulfilled :: "Chart \<Rightarrow> ChartSelectState \<Rightarrow> ChartSelectState" where
  "onFulfilled chart s = s\<lparr> selectedChart := Some (toChartOption chart) \<rparr>"

definition onRejected :: "int \<Rightarrow> ChartSelectState \<Rightarrow> ChartSelectState" where
  "onRejected v s =
     s\<lparr> selectedChart :=
          Some \<lparr> option_value = v, option_label = ''Chart '' @ toString v,
                 option_viz_type = None \<rparr> \<rparr>"

definition onFinally :: "ChartSelectState \<Rightarrow> ChartSelectState" where
  "onFinally s = s\<lparr> isLoadingSelected := False \<rparr>"

text \<open>
  \<open>selectedValue\<close> (lines 153--159), the value handed to the select control. The
  translation function \<open>t\<close> is taken as the identity.
\<close>

definition loadingOption :: "int \<Rightarrow> ChartOption" where
  "loadingOption n = \<lparr> option_value = n, option_label = ''Loading...'', option_viz_type = None \<rparr>"

definition selectedValue :: "value_prop \<Rightarrow> ChartSelectState \<Rightarrow> ChartOption option" where
  "selectedValue v s =
     (case v of
        VNum n \<Rightarrow>
          if n = 0 then None
          else if isLoadingSelected s then Some (loadingOption n)
          else (case selectedChart s of Some c \<Rightarrow> Some c | None \<Rightarrow> Some (loadingOption n))
      | _ \<Rightarrow> None)"

text \<open>
  The selection state of the specification (Empty, Resolving, Resolved), read off the
  branches of \<open>selectedValue\<close>: nothing is displayed, the placeholder is displayed, or
  the stored option is displayed.
\<close>

datatype SelectionState = Empty | Resolving int | Resolved ChartOption

definition selectionState :: "value_prop \<Rightarrow> ChartSelectState \<Rightarrow> SelectionState" where
  "selectionState v s =
     (case v of
        VNum n \<Rightarrow>
          if n = 0 then Empty
          else if isLoadingSelected s then Resolving n
          else (case selectedChart s of Some c \<Rightarrow> Resolved c | None \<Rightarrow> Resolving n)
      | _ \<Rightarrow> Empty)"

text \<open>
  \<open>handleChange\<close> (lines 161--173). The result is the sequence of arguments with which
  \<open>onChange\<close> is invoked. An object is a list of its fields; \<open>'value' in newValue\<close> is
  the presence of the key.
\<close>

fun handleChange :: "jsval \<Rightarrow> jsval list" where
  "handleChange JNull = [JNull]"
| "handleChange JUndefined = [JNull]"
| "handleChange (JObj kvs) =
     (case map_of kvs ''value'' of Some v \<Rightarrow> [v] | None \<Rightarrow> [JObj kvs])"
| "handleChange newValue = [newValue]"

text \<open>A \<open>ChartOption\<close> as the object the select control hands back.\<close>

definition optionObject :: "ChartOption \<Rightarrow> jsval" where
  "optionObject c =
     JObj ([(''value'', JNum (option_value c)), (''label'', JStr (option_label c))] @
           (case option_viz_type c of None \<Rightarrow> [] | Some ty \<Rightarrow> [(''viz_type'', JStr ty)]))"

section \<open>ChartSelect: the component in its environment\<close>

text \<open>
  The component together with what surrounds it: the \<open>value\<close> prop of the last render,
  the state cells, the identifiers of the by-identifier fetches that were issued and have
  not settled, and the arguments of the \<open>onChange\<close> invocations so far.
\<close>

record World =
  prop_value :: value_prop
  component :: ChartSelectState
  pending :: "int list"
  onChange_calls :: "jsval list"

text \<open>
  Events: the parent renders the component with a value; a fetch issued for an identifier
  settles (the server's answer is not constrained); the select control reports a change.
\<close>

datatype event =
  Render value_prop
| FetchFulfilled int Chart
| FetchRejected int
| Change jsval

definition issued :: "int option \<Rightarrow> int list" where
  "issued f = (case f of None \<Rightarrow> [] | Some n \<Rightarrow> [n])"

text \<open>The first render: the effect runs on the initial state.\<close>

definition mount :: "value_prop \<Rightarrow> World" where
  "mount v =
     \<lparr> prop_value = v,
       component = fst (valueEffect v initialState),
       pending = issued (snd (valueEffect v initialState)),
       onChange_calls = [] \<rparr>"

text \<open>
  One event. The effect depends on \<open>[value]\<close>: a render with an unchanged value does not
  run it. A settlement of a fetch that is not in flight cannot happen (\<open>None\<close>).
\<close>

fun step :: "event \<Rightarrow> World \<Rightarrow> World option" where
  "step (Render v) w =
     Some (if v = prop_value w then w
           else w\<lparr> prop_value := v,
                   component := fst (valueEffect v (component w)),
                   pending := pending w @ issued (snd (valueEffect v (component w))) \<rparr>)"
| "step (FetchFulfilled n chart) w =
     (if n \<in> set (pending w)
      then Some (w\<lparr> component := onFinally (onFulfilled chart (component w)),
                     pending := remove1 n (pending w) \<rparr>)
      else None)"
| "step (FetchRejected n) w =
     (if n \<in> set (pending w)
      then Some (w\<lparr> component := onFinally (onRejected n (component w)),
                     pending := remove1 n (pending w) \<rparr>)
      else None)"
| "step (Change newValue) w =
     Some (w\<lparr> onChange_calls := onChange_calls w @ handleChange newValue \<rparr>)"

fun run :: "event list \<Rightarrow> World \<Rightarrow> World option" where
  "run [] w = Some w"
| "run (e # es) w = (case step e w of None \<Rightarrow> None | Some w' \<Rightarrow> run es w')"

definition worldSelection :: "World \<Rightarrow> SelectionState" where
  "worldSelection w = selectionState (prop_value w) (component w)"

text \<open>
  The parent owns the value and is not part of the component. Its answer to a change
  notification is a parameter: \<open>react x\<close> is the value with which it renders the
  component after \<open>onChange(x)\<close>, or \<open>None\<close> when it renders nothing (a mock callback,
  as in the component's tests). \<open>changeWith\<close> is a change reported by the select control,
  followed by the parent's renders for the callback invocations it caused.
\<close>

definition parentRenders :: "(jsval \<Rightarrow> value_prop option) \<Rightarrow> jsval list \<Rightarrow> event list" where
  "parentRenders react calls =
     concat (map (\<lambda>x. case react x of None \<Rightarrow> [] | Some v \<Rightarrow> [Render v]) calls)"

definition changeWith :: "(jsval \<Rightarrow> value_prop option) \<Rightarrow> jsval \<Rightarrow> World \<Rightarrow> World option" where
  "changeWith react newValue w =
     run (Change newValue # parentRenders react (handleChange newValue)) w"

text \<open>A parent that keeps the identifier it is notified of and renders the component with it.\<close>

definition controlledParent :: "jsval \<Rightarrow> value_prop option" where
  "controlledParent x =
     (case x of JNull \<Rightarrow> Some VNull | JNum n \<Rightarrow> Some (VNum n) | _ \<Rightarrow> None)"

section \<open>ColumnSelect\<close>

text \<open>One entry of the array handed to \<open>form.setFields\<close>.\<close>

record FieldData =
  field_name :: "string list"
  touched :: bool
  field_value :: jsval

text \<open>
  \<open>resetColumnField\<close> (lines 200--204 of the component): the argument of its single
  \<open>form.setFields\<close> call. \<open>formField\<close> defaults to \<open>'column'\<close>.
\<close>

definition resetColumnField :: "string \<Rightarrow> string option \<Rightarrow> FieldData list" where
  "resetColumnField filterId formField =
     [\<lparr> field_name = [''filters'', filterId, (case formField of None \<Rightarrow> ''column'' | Some f \<Rightarrow> f)],
        touched = False, field_value = JNull \<rparr>]"

text \<open>
  The callback given to \<open>useChangeEffect(datasetId, ...)\<close> (lines 231--235). The hook
  itself is the library's; it hands the callback the previous value of \<open>datasetId\<close>
  (\<open>None\<close> is undefined or null). The result is the sequence of \<open>form.setFields\<close> calls.
\<close>

definition datasetIdChanged ::
  "string \<Rightarrow> string option \<Rightarrow> int option \<Rightarrow> int option \<Rightarrow> FieldData list list" where
  "datasetIdChanged filterId formField datasetId previous =
     (if previous \<noteq> None \<and> previous \<noteq> datasetId then [resetColumnField filterId formField]
      else [])"

section \<open>The filter sequence as the specification words it\<close>

text \<open>
  The specification's query composition, kept apart from \<open>chartFilters\<close> for
  comparison: a text-contains predicate on the label field when the search text is
  non-empty, and an equality predicate on the scoping field with the scope filter's value
  when the scope filter is set.
\<close>

definition spec_chartFilters :: "int option \<Rightarrow> string \<Rightarrow> Filter list" where
  "spec_chartFilters scopeFilter searchText =
     (if searchText \<noteq> []
      then [\<lparr> col = ''slice_name'', opr = ''ct'', filter_value = JStr searchText \<rparr>]
      else []) @
     (case scopeFilter of
        None \<Rightarrow> []
      | Some d \<Rightarrow> [\<lparr> col = ''datasource_id'', opr = ''eq'', filter_value = JNum d \<rparr>])"

section \<open>Basic facts\<close>

lemma falsy_valueEffect:
  "\<not> truthy v \<Longrightarrow> valueEffect v s = (s\<lparr> selectedChart := None \<rparr>, None)"
  by (cases v) (simp_all add: valueEffect_def)

lemma valueEffect_fetch:
  "valueEffect v s = (s', Some n) \<Longrightarrow> v = VNum n \<and> n \<noteq> 0"
  by (cases v) (auto simp: valueEffect_def split: option.splits if_splits)

lemma valueEffect_same:
  "selectedChart s = Some c \<Longrightarrow> option_value c = n \<Longrightarrow> n \<noteq> 0 \<Longrightarrow>
   valueEffect (VNum n) s = (s, None)"
  by (simp add: valueEffect_def)

lemma selectedValue_selectionState:
  "selectedValue v s =
     (case selectionState v s of
        Empty \<Rightarrow> None
      | Resolving n \<Rightarrow> Some (loadingOption n)
      | Resolved c \<Rightarrow> Some c)"
  by (simp add: selectedValue_def selectionState_def split: value_prop.splits option.splits)

lemma empty_iff: "selectionState v s = Empty \<longleftrightarrow> \<not> truthy v"
  by (cases v) (auto simp: selectionState_def split: option.splits)

lemma resolving_iff:
  "selectionState v s = Resolving n \<longleftrightarrow>
     v = VNum n \<and> n \<noteq> 0 \<and> (isLoadingSelected s \<or> selectedChart s = None)"
  by (cases v) (auto simp: selectionState_def split: option.splits)

lemma resolved_iff:
  "selectionState v s = Resolved c \<longleftrightarrow>
     truthy v \<and> \<not> isLoadingSelected s \<and> selectedChart s = Some c"
  by (cases v) (auto simp: selectionState_def split: option.splits)

lemma sublist_suffix: "sublist xs (ps @ xs)"
  unfolding sublist_def by (intro exI[of _ ps] exI[of _ "[]"]) simp

text \<open>
  A render with a new, non-zero value that the stored option already carries changes
  nothing but the prop.
\<close>

lemma render_loaded_chart:
  "selectedChart (component w) = Some c \<Longrightarrow> option_value c = n \<Longrightarrow> n \<noteq> 0 \<Longrightarrow>
   step (Render (VNum n)) w = Some (w\<lparr> prop_value := VNum n \<rparr>)"
  by (simp add: valueEffect_same issued_def)

section \<open>Selection state of ChartSelect\<close>

text \<open>
  The scenario of C1 on the code: values 1 and 2 are rendered in turn, the fetch for 2 is
  fulfilled and then the fetch for 1. After the first completion the selection is Resolved
  with the option of chart 2; after the late one it is Resolved with the option of
  chart 1, so it did not remain what it was.
\<close>

theorem late_response_counterexample:
  "map_option worldSelection
     (run [Render (VNum 1), Render (VNum 2),
           FetchFulfilled 2 \<lparr> chart_id = 2, slice_name = ''B'', viz_type = ''bar'' \<rparr>]
        (mount VUndefined))
   = Some (Resolved \<lparr> option_value = 2, option_label = ''B (bar)'',
                      option_viz_type = Some ''bar'' \<rparr>)
   \<and> map_option worldSelection
     (run [Render (VNum 1), Render (VNum 2),
           FetchFulfilled 2 \<lparr> chart_id = 2, slice_name = ''B'', viz_type = ''bar'' \<rparr>,
           FetchFulfilled 1 \<lparr> chart_id = 1, slice_name = ''A'', viz_type = ''table'' \<rparr>]
        (mount VUndefined))
   = Some (Resolved \<lparr> option_value = 1, option_label = ''A (table)'',
                      option_viz_type = Some ''table'' \<rparr>)"
  by (simp add: mount_def valueEffect_def initialState_def issued_def onFinally_def
      onFulfilled_def toChartOption_def worldSelection_def selectionState_def)

text \<open>
  Claim C1, as amended: a by-identifier completion is applied without a check against the
  current value. Whenever a fetch in flight settles, whatever the value and the state are,
  a fulfilment stores the option built from the response and a rejection stores the
  fallback option of the identifier the fetch was issued for, and the loading flag is
  cleared. For distinct non-zero identifiers \<open>a\<close> and \<open>b\<close>, rendered in this order on a
  component mounted without a value, the fulfilment of the fetch for \<open>b\<close> makes the
  selection Resolved with the option built from its response, and the later settlement
  of the fetch for \<open>a\<close> replaces it: the selection is then Resolved with the option built
  from the response for \<open>a\<close>, or with the fallback option of \<open>a\<close> when that fetch failed.
\<close>

theorem late_response_applied:
  assumes "n \<in> set (pending w)" and "a \<noteq> 0" and "b \<noteq> 0" and "a \<noteq> b"
  shows "step (FetchFulfilled n chart) w =
           Some (w\<lparr> component :=
                       \<lparr> selectedChart = Some (toChartOption chart),
                         isLoadingSelected = False \<rparr>,
                     pending := remove1 n (pending w) \<rparr>)
       \<and> step (FetchRejected n) w =
           Some (w\<lparr> component :=
                       \<lparr> selectedChart =
                           Some \<lparr> option_value = n, option_label = ''Chart '' @ toString n,
                                  option_viz_type = None \<rparr>,
                         isLoadingSelected = False \<rparr>,
                     pending := remove1 n (pending w) \<rparr>)
       \<and> map_option worldSelection
           (run [Render (VNum a), Render (VNum b), FetchFulfilled b cb] (mount VUndefined))
         = Some (Resolved (toChartOption cb))
       \<and> map_option worldSelection
           (run [Render (VNum a), Render (VNum b), FetchFulfilled b cb, FetchFulfilled a ca]
              (mount VUndefined))
         = Some (Resolved (toChartOption ca))
       \<and> map_option worldSelection
           (run [Render (VNum a), Render (VNum b), FetchFulfilled b cb, FetchRejected a]
              (mount VUndefined))
         = Some (Resolved \<lparr> option_value = a, option_label = ''Chart '' @ toString a,
                            option_viz_type = None \<rparr>)"
proof -
  have settle:
    "step (FetchFulfilled n chart) w =
       Some (w\<lparr> component :=
                   \<lparr> selectedChart = Some (toChartOption chart), isLoadingSelected = False \<rparr>,
                 pending := remove1 n (pending w) \<rparr>)"
    "step (FetchRejected n) w =
       Some (w\<lparr> component :=
                   \<lparr> selectedChart =
                       Some \<lparr> option_value = n, option_label = ''Chart '' @ toString n,
                              option_viz_type = None \<rparr>,
                     isLoadingSelected = False \<rparr>,
                 pending := remove1 n (pending w) \<rparr>)"
    using assms(1) by (simp_all add: onFinally_def onFulfilled_def onRejected_def)
  have scenario:
    "map_option worldSelection
       (run [Render (VNum a), Render (VNum b), FetchFulfilled b cb] (mount VUndefined))
     = Some (Resolved (toChartOption cb))"
    "map_option worldSelection
       (run [Render (VNum a), Render (VNum b), FetchFulfilled b cb, FetchFulfilled a ca]
          (mount VUndefined))
     = Some (Resolved (toChartOption ca))"
    "map_option worldSelection
       (run [Render (VNum a), Render (VNum b), FetchFulfilled b cb, FetchRejected a]
          (mount VUndefined))
     = Some (Resolved \<lparr> option_value = a, option_label = ''Chart '' @ toString a,
                        option_viz_type = None \<rparr>)"
    using assms(2-4)
    by (simp_all add: mount_def valueEffect_def initialState_def issued_def onFinally_def
        onFulfilled_def onRejected_def worldSelection_def selectionState_def)
  from settle scenario show ?thesis by simp
qed

theorem late_response_applied_witness:
  "7 \<in> set (pending (mount (VNum 7)))
   \<and> (7::int) \<noteq> 0 \<and> (9::int) \<noteq> 0 \<and> (7::int) \<noteq> 9
   \<and> map_option component (step (FetchRejected 7) (mount (VNum 7)))
     = Some \<lparr> selectedChart = Some \<lparr> option_value = 7, option_label = ''Chart 7'',
                                      option_viz_type = None \<rparr>,
              isLoadingSelected = False \<rparr>
   \<and> map_option worldSelection
       (run [Render (VNum 7), Render (VNum 9),
             FetchFulfilled 9 \<lparr> chart_id = 9, slice_name = ''Sales'', viz_type = ''pie'' \<rparr>,
             FetchFulfilled 7 \<lparr> chart_id = 7, slice_name = ''Costs'', viz_type = ''line'' \<rparr>]
          (mount VUndefined))
     = Some (Resolved \<lparr> option_value = 7, option_label = ''Costs (line)'',
                        option_viz_type = Some ''line'' \<rparr>)
   \<and> map_option worldSelection
       (run [Render (VNum 7), Render (VNum 9),
             FetchFulfilled 9 \<lparr> chart_id = 9, slice_name = ''Sales'', viz_type = ''pie'' \<rparr>,
             FetchRejected 7]
          (mount VUndefined))
     = Some (Resolved \<lparr> option_value = 7, option_label = ''Chart 7'',
                        option_viz_type = None \<rparr>)"
proof -
  have p: "7 \<in> set (pending (mount (VNum 7)))"
    by (simp add: mount_def valueEffect_def initialState_def issued_def)
  have t: "toString 7 = ''7''"
    by (simp add: toString_def string_of_nat.simps digit_char_def)
  from late_response_applied [OF p, of 7 9
      "\<lparr> chart_id = 7, slice_name = ''Costs'', viz_type = ''line'' \<rparr>"
      "\<lparr> chart_id = 9, slice_name = ''Sales'', viz_type = ''pie'' \<rparr>"
      "\<lparr> chart_id = 7, slice_name = ''Costs'', viz_type = ''line'' \<rparr>"] p
  show ?thesis
    by (simp add: t toChartOption_def)
qed

text \<open>
  Claim C2: when the selection is Resolved with identifier \<open>v\<close> (the value is \<open>v\<close> and
  the stored option carries \<open>v\<close>), the handler of a changed value, run with \<open>v\<close>, issues no
  fetch and leaves the state as it is.
\<close>

theorem same_value_noop:
  assumes "selectionState (VNum v) s = Resolved c" and "option_value c = v"
  shows "valueEffect (VNum v) s = (s, None)"
  using assms by (simp add: resolved_iff valueEffect_same)

theorem same_value_noop_witness:
  "selectionState (VNum 1)
     \<lparr> selectedChart = Some \<lparr> option_value = 1, option_label = ''Test Chart 1 (table)'',
                               option_viz_type = Some ''table'' \<rparr>,
       isLoadingSelected = False \<rparr>
   = Resolved \<lparr> option_value = 1, option_label = ''Test Chart 1 (table)'',
                option_viz_type = Some ''table'' \<rparr>
   \<and> valueEffect (VNum 1)
       \<lparr> selectedChart = Some \<lparr> option_value = 1, option_label = ''Test Chart 1 (table)'',
                                 option_viz_type = Some ''table'' \<rparr>,
         isLoadingSelected = False \<rparr>
     = (\<lparr> selectedChart = Some \<lparr> option_value = 1, option_label = ''Test Chart 1 (table)'',
                                  option_viz_type = Some ''table'' \<rparr>,
          isLoadingSelected = False \<rparr>, None)"
proof -
  let ?c = "\<lparr> option_value = 1, option_label = ''Test Chart 1 (table)'',
              option_viz_type = Some ''table'' \<rparr>"
  let ?s = "\<lparr> selectedChart = Some ?c, isLoadingSelected = False \<rparr>"
  have r: "selectionState (VNum 1) ?s = Resolved ?c"
    by (simp add: selectionState_def)
  have "valueEffect (VNum 1) ?s = (?s, None)"
    by (rule same_value_noop [OF r]) simp
  with r show ?thesis by simp
qed

text \<open>
  Claim C3: when the selection is Resolving \<open>v\<close> and the fetch issued for \<open>v\<close> fails, the
  selection becomes Resolved with the option whose value is \<open>v\<close> and whose label is
  \<open>Chart\<close> followed by the string form of \<open>v\<close>; the label contains that string form, and
  the component is no longer loading.
\<close>

theorem failure_falls_back:
  assumes "worldSelection w = Resolving v" and "v \<in> set (pending w)"
  shows "\<exists>w'. step (FetchRejected v) w = Some w'
           \<and> worldSelection w' =
               Resolved \<lparr> option_value = v, option_label = ''Chart '' @ toString v,
                          option_viz_type = None \<rparr>
           \<and> prop_value w' = VNum v
           \<and> \<not> isLoadingSelected (component w')
           \<and> sublist (toString v) (''Chart '' @ toString v)"
proof -
  from assms(1) have v: "prop_value w = VNum v" "v \<noteq> 0"
    by (simp_all add: worldSelection_def resolving_iff)
  let ?w' = "w\<lparr> component := onFinally (onRejected v (component w)),
                pending := remove1 v (pending w) \<rparr>"
  have "step (FetchRejected v) w = Some ?w'"
    using assms(2) by simp
  moreover have "worldSelection ?w' =
      Resolved \<lparr> option_value = v, option_label = ''Chart '' @ toString v,
                 option_viz_type = None \<rparr>"
    using v by (simp add: worldSelection_def resolved_iff onFinally_def onRejected_def)
  moreover have "prop_value ?w' = VNum v" "\<not> isLoadingSelected (component ?w')"
    using v by (simp_all add: onFinally_def)
  moreover have "sublist (toString v) (''Chart '' @ toString v)"
    by (rule sublist_suffix)
  ultimately show ?thesis by blast
qed

theorem failure_falls_back_witness:
  "worldSelection (mount (VNum 5)) = Resolving 5
   \<and> 5 \<in> set (pending (mount (VNum 5)))
   \<and> (\<exists>w'. step (FetchRejected 5) (mount (VNum 5)) = Some w'
          \<and> worldSelection w' =
              Resolved \<lparr> option_value = 5, option_label = ''Chart 5'', option_viz_type = None \<rparr>
          \<and> sublist ''5'' ''Chart 5'')"
proof -
  have r: "worldSelection (mount (VNum 5)) = Resolving 5"
    by (simp add: worldSelection_def mount_def valueEffect_def initialState_def
        selectionState_def)
  have p: "5 \<in> set (pending (mount (VNum 5)))"
    by (simp add: mount_def valueEffect_def initialState_def issued_def)
  have t: "toString 5 = ''5''"
    by (simp add: toString_def string_of_nat.simps digit_char_def)
  from failure_falls_back [OF r p] r p show ?thesis
    by (auto simp: t)
qed

text \<open>
  Claim C5: when the value changes to null, the handler clears the stored option and
  issues no fetch; the selection is Empty and nothing is handed to the select control.
  In the environment, a render with null leaves the fetches in flight as they were.
\<close>

theorem null_value_empties:
  "valueEffect VNull s = (s\<lparr> selectedChart := None \<rparr>, None)
   \<and> selectionState VNull (fst (valueEffect VNull s)) = Empty
   \<and> selectedValue VNull (fst (valueEffect VNull s)) = None
   \<and> map_option worldSelection (step (Render VNull) w) = Some Empty
   \<and> map_option pending (step (Render VNull) w) = Some (pending w)"
  by (simp add: valueEffect_def selectionState_def selectedValue_def worldSelection_def
      issued_def)

text \<open>
  Claim C10: the value 0 is treated as no selection. The handler, run with 0, does what it
  does with null and undefined: it clears the stored option and issues no fetch. With the
  value 0 nothing is handed to the select control, whatever the state, so no option is
  shown as selected.
\<close>

theorem zero_value_is_no_selection:
  "valueEffect (VNum 0) s = (s\<lparr> selectedChart := None \<rparr>, None)
   \<and> valueEffect (VNum 0) s = valueEffect VNull s
   \<and> valueEffect (VNum 0) s = valueEffect VUndefined s
   \<and> selectedValue (VNum 0) s' = None
   \<and> selectionState (VNum 0) s' = Empty
   \<and> map_option worldSelection (step (Render (VNum 0)) w) = Some Empty
   \<and> map_option pending (step (Render (VNum 0)) w) = Some (pending w)"
  by (auto simp: valueEffect_def selectionState_def selectedValue_def worldSelection_def
      issued_def split: value_prop.splits)

section \<open>List queries of ChartSelect\<close>

text \<open>
  The filter sequence of the code against the one the specification words: with search
  text \<open>Chart\<close> and dataset 123 the code adds an equality predicate on
  \<open>datasource_type\<close>, and with dataset 0 (set, but falsy) it adds no predicate at all.
\<close>

theorem query_composition_counterexample:
  "chartFilters (Some 123) ''Chart'' \<noteq> spec_chartFilters (Some 123) ''Chart''
   \<and> chartFilters (Some 0) [] \<noteq> spec_chartFilters (Some 0) []"
  by (simp add: chartFilters_def spec_chartFilters_def)

text \<open>
  Claim C4, as amended: the filter sequence of the issued list query is the text-contains
  predicate on \<open>slice_name\<close> when the search text is non-empty, followed, when
  \<open>datasetId\<close> is set and not 0, by the equality predicate on \<open>datasource_id\<close> with the
  dataset's identifier and the equality predicate on \<open>datasource_type\<close> with \<open>table\<close>. In
  particular, with dataset 123 the sequence holds the equality predicate with value 123,
  and the search-text predicate as well when the search text is non-empty.
\<close>

theorem query_composition:
  "filters (chartQuery datasetId (Some input) pg pageSize) =
     (if input \<noteq> [] then [\<lparr> col = ''slice_name'', opr = ''ct'', filter_value = JStr input \<rparr>]
      else []) @
     (if datasetId \<noteq> None \<and> datasetId \<noteq> Some 0
      then [\<lparr> col = ''datasource_id'', opr = ''eq'', filter_value = JNum (the datasetId) \<rparr>,
            \<lparr> col = ''datasource_type'', opr = ''eq'', filter_value = JStr ''table'' \<rparr>]
      else [])
   \<and> \<lparr> col = ''datasource_id'', opr = ''eq'', filter_value = JNum 123 \<rparr>
         \<in> set (filters (chartQuery (Some 123) (Some input) pg pageSize))
   \<and> (input \<noteq> [] \<longrightarrow>
        \<lparr> col = ''slice_name'', opr = ''ct'', filter_value = JStr input \<rparr>
          \<in> set (filters (chartQuery (Some 123) (Some input) pg pageSize)))"
  by (auto simp: chartQuery_def chartFilters_def split: option.splits)

theorem query_composition_witness:
  "filters (chartQuery (Some 123) (Some ''Chart'') (Some 0) (Some 50)) =
     [\<lparr> col = ''slice_name'', opr = ''ct'', filter_value = JStr ''Chart'' \<rparr>,
      \<lparr> col = ''datasource_id'', opr = ''eq'', filter_value = JNum 123 \<rparr>,
      \<lparr> col = ''datasource_type'', opr = ''eq'', filter_value = JStr ''table'' \<rparr>]
   \<and> ''Chart'' \<noteq> []
   \<and> \<lparr> col = ''slice_name'', opr = ''ct'', filter_value = JStr ''Chart'' \<rparr>
         \<in> set (filters (chartQuery (Some 123) (Some ''Chart'') (Some 0) (Some 50)))"
  using query_composition [of "Some 123" "''Chart''" "Some 0" "Some 50"]
  by simp

text \<open>
  Claim C6: every list query asks for the results ordered by \<open>slice_name\<close>, ascending.
  The second part reads the query off the call of the HTTP client: a client that fails
  with the query it was given makes \<open>loadChartOptions\<close> fail with \<open>chartQuery\<close>.
\<close>

theorem query_order:
  "order_column (chartQuery datasetId input pg pageSize) = ''slice_name''
   \<and> order_direction (chartQuery datasetId input pg pageSize) = ''asc''
   \<and> loadChartOptions Inl datasetId input pg pageSize
       = Inl (chartQuery datasetId input pg pageSize)"
  by (simp add: chartQuery_def loadChartOptions_def)

text \<open>
  Claim C7: whenever the client answers the list query with a response, the options are
  built item by item: each label is the item's name followed by its type in parentheses,
  each value is the item's id, and the total count is the response's count; picking an
  option (handed over as the option object or as its bare value) invokes the change
  callback once, with the option's value. For the response with count 2 and the charts
  (1, Test Chart 1, table) and (2, Test Chart 2, bar), requested with search text
  \<open>Chart\<close>, page 0 and page size 50, the options are exactly those with the labels
  \<open>Test Chart 1 (table)\<close> and \<open>Test Chart 2 (bar)\<close> and the values 1 and 2, the total
  count is 2, and picking the first invokes the change callback with 1.
\<close>

theorem chart_options_rule:
  assumes "get (chartQuery datasetId input pg pageSize) = Inr response"
  shows "(\<exists>page. loadChartOptions get datasetId input pg pageSize = Inr page
           \<and> map option_label (data page) =
               map (\<lambda>chart. slice_name chart @ '' ('' @ viz_type chart @ '')'') (result response)
           \<and> map option_value (data page) = map chart_id (result response)
           \<and> map option_viz_type (data page) =
               map (\<lambda>chart. Some (viz_type chart)) (result response)
           \<and> totalCount page = count response
           \<and> (\<forall>c \<in> set (data page).
                 handleChange (optionObject c) = [JNum (option_value c)]
                 \<and> handleChange (JNum (option_value c)) = [JNum (option_value c)]))
       \<and> loadChartOptions
            (\<lambda>q. Inr \<lparr> count = 2,
                        result = [\<lparr> chart_id = 1, slice_name = ''Test Chart 1'',
                                    viz_type = ''table'' \<rparr>,
                                  \<lparr> chart_id = 2, slice_name = ''Test Chart 2'',
                                    viz_type = ''bar'' \<rparr>] \<rparr>)
            None (Some ''Chart'') (Some 0) (Some 50)
          = (Inr \<lparr> data = [\<lparr> option_value = 1, option_label = ''Test Chart 1 (table)'',
                              option_viz_type = Some ''table'' \<rparr>,
                            \<lparr> option_value = 2, option_label = ''Test Chart 2 (bar)'',
                              option_viz_type = Some ''bar'' \<rparr>],
                   totalCount = 2 \<rparr> :: unit + OptionsPage)
       \<and> handleChange (optionObject \<lparr> option_value = 1, option_label = ''Test Chart 1 (table)'',
                           option_viz_type = Some ''table'' \<rparr>) = [JNum 1]
       \<and> handleChange (JNum 1) = [JNum 1]"
proof -
  let ?page = "\<lparr> data = map toChartOption (result response), totalCount = count response \<rparr>"
  have "loadChartOptions get datasetId input pg pageSize = Inr ?page"
    using assms by (simp add: loadChartOptions_def)
  moreover have "map option_label (data ?page) =
      map (\<lambda>chart. slice_name chart @ '' ('' @ viz_type chart @ '')'') (result response)"
    and "map option_value (data ?page) = map chart_id (result response)"
    and "map option_viz_type (data ?page) = map (\<lambda>chart. Some (viz_type chart)) (result response)"
    and "totalCount ?page = count response"
    by (simp_all add: toChartOption_def)
  moreover have "\<forall>c \<in> set (data ?page).
      handleChange (optionObject c) = [JNum (option_value c)]
      \<and> handleChange (JNum (option_value c)) = [JNum (option_value c)]"
    by (simp add: optionObject_def)
  ultimately have general: "\<exists>page. loadChartOptions get datasetId input pg pageSize = Inr page
      \<and> map option_label (data page) =
          map (\<lambda>chart. slice_name chart @ '' ('' @ viz_type chart @ '')'') (result response)
      \<and> map option_value (data page) = map chart_id (result response)
      \<and> map option_viz_type (data page) = map (\<lambda>chart. Some (viz_type chart)) (result response)
      \<and> totalCount page = count response
      \<and> (\<forall>c \<in> set (data page).
            handleChange (optionObject c) = [JNum (option_value c)]
            \<and> handleChange (JNum (option_value c)) = [JNum (option_value c)])"
    by blast
  show ?thesis
    using general by (simp add: loadChartOptions_def toChartOption_def optionObject_def)
qed

theorem chart_options_rule_witness:
  "\<exists>page. loadChartOptions
       (\<lambda>q. if order_column q = ''slice_name''
             then Inr \<lparr> count = 2,
                        result = [\<lparr> chart_id = 1, slice_name = ''Test Chart 1'',
                                    viz_type = ''table'' \<rparr>,
                                  \<lparr> chart_id = 2, slice_name = ''Test Chart 2'',
                                    viz_type = ''bar'' \<rparr>] \<rparr>
             else Inl ())
       None (Some ''Chart'') (Some 0) (Some 50) = Inr page
     \<and> map option_label (data page) = [''Test Chart 1 (table)'', ''Test Chart 2 (bar)'']
     \<and> map option_value (data page) = [1, 2]
     \<and> totalCount page = 2"
proof -
  let ?response = "\<lparr> count = 2,
      result = [\<lparr> chart_id = 1, slice_name = ''Test Chart 1'', viz_type = ''table'' \<rparr>,
                \<lparr> chart_id = 2, slice_name = ''Test Chart 2'', viz_type = ''bar'' \<rparr>] \<rparr>"
  let ?get = "\<lambda>q. if order_column q = ''slice_name'' then Inr ?response else Inl ()"
  have g: "?get (chartQuery None (Some ''Chart'') (Some 0) (Some 50)) = Inr ?response"
    by (simp add: chartQuery_def)
  from chart_options_rule [of ?get None "Some ''Chart''" "Some 0" "Some 50" ?response, OF g]
  obtain page where
    "loadChartOptions ?get None (Some ''Chart'') (Some 0) (Some 50) = Inr page"
    "map option_label (data page) =
       map (\<lambda>chart. slice_name chart @ '' ('' @ viz_type chart @ '')'') (result ?response)"
    "map option_value (data page) = map chart_id (result ?response)"
    "totalCount page = count ?response"
    by blast
  then show ?thesis
    by (intro exI [of _ page]) simp
qed

section \<open>Clearing the selection\<close>

text \<open>
  The clear action on the code, with a parent that renders nothing in answer (the mock
  callback of the component's own test): the component is mounted with value 1, the
  fetch for 1 is fulfilled, and the select control reports a cleared value. The change
  callback was invoked with null, and the selection the component holds is still
  Resolved with the option of chart 1.
\<close>

theorem clear_counterexample:
  "map_option worldSelection
     (run [FetchFulfilled 1 \<lparr> chart_id = 1, slice_name = ''Test Chart 1'', viz_type = ''table'' \<rparr>,
           Change JUndefined]
        (mount (VNum 1)))
   = Some (Resolved \<lparr> option_value = 1, option_label = ''Test Chart 1 (table)'',
                      option_viz_type = Some ''table'' \<rparr>)
   \<and> map_option onChange_calls
     (run [FetchFulfilled 1 \<lparr> chart_id = 1, slice_name = ''Test Chart 1'', viz_type = ''table'' \<rparr>,
           Change JUndefined]
        (mount (VNum 1)))
   = Some [JNull]"
  by (simp add: mount_def valueEffect_def initialState_def issued_def onFinally_def
      onFulfilled_def toChartOption_def worldSelection_def selectionState_def)

text \<open>
  Claim C8, as amended: the change handler turns a null or undefined incoming value into
  a single invocation of the change callback with null, and does not itself modify the
  state of the component. With a parent that answers \<open>onChange(null)\<close> by rendering the
  component with the value null, the clear action invokes the callback with null exactly
  once and the selection state becomes Empty.
\<close>

theorem clear_calls_back_once:
  assumes "react JNull = Some VNull"
  shows "handleChange JNull = [JNull] \<and> handleChange JUndefined = [JNull]
       \<and> step (Change JNull) w = Some (w\<lparr> onChange_calls := onChange_calls w @ [JNull] \<rparr>)
       \<and> step (Change JUndefined) w = Some (w\<lparr> onChange_calls := onChange_calls w @ [JNull] \<rparr>)
       \<and> map_option onChange_calls (changeWith react JUndefined w)
           = Some (onChange_calls w @ [JNull])
       \<and> map_option worldSelection (changeWith react JUndefined w) = Some Empty
       \<and> map_option onChange_calls (changeWith react JNull w)
           = Some (onChange_calls w @ [JNull])
       \<and> map_option worldSelection (changeWith react JNull w) = Some Empty"
  using assms
  by (auto simp: changeWith_def parentRenders_def worldSelection_def selectionState_def
      valueEffect_def issued_def split: value_prop.splits)

theorem clear_calls_back_once_witness:
  "controlledParent JNull = Some VNull
   \<and> run [FetchFulfilled 1 \<lparr> chart_id = 1, slice_name = ''Test Chart 1'', viz_type = ''table'' \<rparr>]
        (mount (VNum 1))
     = Some \<lparr> prop_value = VNum 1,
              component = \<lparr> selectedChart =
                               Some \<lparr> option_value = 1, option_label = ''Test Chart 1 (table)'',
                                      option_viz_type = Some ''table'' \<rparr>,
                            isLoadingSelected = False \<rparr>,
              pending = [], onChange_calls = [] \<rparr>
   \<and> map_option onChange_calls
       (changeWith controlledParent JUndefined
          \<lparr> prop_value = VNum 1,
            component = \<lparr> selectedChart =
                             Some \<lparr> option_value = 1, option_label = ''Test Chart 1 (table)'',
                                    option_viz_type = Some ''table'' \<rparr>,
                          isLoadingSelected = False \<rparr>,
            pending = [], onChange_calls = [] \<rparr>)
     = Some [JNull]
   \<and> map_option worldSelection
       (changeWith controlledParent JUndefined
          \<lparr> prop_value = VNum 1,
            component = \<lparr> selectedChart =
                             Some \<lparr> option_value = 1, option_label = ''Test Chart 1 (table)'',
                                    option_viz_type = Some ''table'' \<rparr>,
                          isLoadingSelected = False \<rparr>,
            pending = [], onChange_calls = [] \<rparr>)
     = Some Empty"
proof -
  have c: "controlledParent JNull = Some VNull"
    by (simp add: controlledParent_def)
  have m: "run [FetchFulfilled 1 \<lparr> chart_id = 1, slice_name = ''Test Chart 1'',
                                   viz_type = ''table'' \<rparr>] (mount (VNum 1))
     = Some \<lparr> prop_value = VNum 1,
              component = \<lparr> selectedChart =
                               Some \<lparr> option_value = 1, option_label = ''Test Chart 1 (table)'',
                                      option_viz_type = Some ''table'' \<rparr>,
                            isLoadingSelected = False \<rparr>,
              pending = [], onChange_calls = [] \<rparr>"
    by (simp add: mount_def valueEffect_def initialState_def issued_def onFinally_def
        onFulfilled_def toChartOption_def)
  from clear_calls_back_once [of controlledParent
         "\<lparr> prop_value = VNum 1,
            component = \<lparr> selectedChart =
                             Some \<lparr> option_value = 1, option_label = ''Test Chart 1 (table)'',
                                    option_viz_type = Some ''table'' \<rparr>,
                          isLoadingSelected = False \<rparr>,
            pending = [], onChange_calls = [] \<rparr>", OF c] c m
  show ?thesis by simp
qed

section \<open>Scope change in ColumnSelect\<close>

text \<open>
  Claim C9: when the callback on a change of \<open>datasetId\<close> receives a previous value that
  is not null and differs from the current \<open>datasetId\<close>, the column field of the filter is
  reset: \<open>form.setFields\<close> is called once, setting the field to null and untouched.
\<close>

theorem scope_change_resets_column:
  assumes "previous = Some p" and "datasetId \<noteq> Some p"
  shows "datasetIdChanged filterId formField datasetId previous =
           [[\<lparr> field_name = [''filters'', filterId,
                              (case formField of None \<Rightarrow> ''column'' | Some f \<Rightarrow> f)],
                touched = False, field_value = JNull \<rparr>]]"
  using assms by (auto simp: datasetIdChanged_def resetColumnField_def)

theorem scope_change_resets_column_witness:
  "Some (456::int) \<noteq> Some 123
   \<and> datasetIdChanged ''filterId'' None (Some 456) (Some 123) =
       [[\<lparr> field_name = [''filters'', ''filterId'', ''column''],
            touched = False, field_value = JNull \<rparr>]]"
  using scope_change_resets_column [of "Some 123" 123 "Some 456" "''filterId''" None]
  by simp

end
